theory Spec2Isabelle
  imports Main "HOL-Library.Sublist" "HOL-Library.Word"
begin

section \<open>Court data fetcher: a shallow embedding of \<open>Court_app/main.py\<close>\<close>

text \<open>
  The program is a Flask application with four routes, a stub scraper object and an
  SQLite store of three tables. Each handler is embedded as a function from the
  environment of one request (clock, portal, PDF renderers, file system), the store
  and the submitted form to a response and the new store.

  Strings are \<^typ>\<open>string\<close>, that is lists of 8-bit characters: the character
  classes of the library functions below (\<open>int\<close>, \<open>strptime\<close>, \<open>str.title\<close>) are
  the ASCII ones. Python integers are \<^typ>\<open>int\<close>.
\<close>

subsection \<open>Python exceptions\<close>

text \<open>The argument is \<open>str(e)\<close>, which the scraper copies into its error dictionary.\<close>

datatype py_exception =
    ValueError string
  | OverflowError string
  | OSError string

fun str_of_exception :: "py_exception \<Rightarrow> string" where
  "str_of_exception (ValueError m) = m"
| "str_of_exception (OverflowError m) = m"
| "str_of_exception (OSError m) = m"

subsection \<open>Characters and decimal numerals\<close>

definition is_digit :: "char \<Rightarrow> bool" where
  "is_digit c = (48 \<le> (of_char c :: nat) \<and> (of_char c :: nat) \<le> 57)"

definition is_nonzero_digit :: "char \<Rightarrow> bool" where
  "is_nonzero_digit c = (49 \<le> (of_char c :: nat) \<and> (of_char c :: nat) \<le> 57)"

definition digit_val :: "char \<Rightarrow> nat" where
  "digit_val c = of_char c - 48"

definition digit_char :: "nat \<Rightarrow> char" where
  "digit_char n = char_of (48 + n)"

text \<open>The decimal numeral of a natural number, as \<open>str(n)\<close> and \<open>%d\<close> print it.\<close>

fun dec :: "nat \<Rightarrow> string" where
  "dec n = (if n < 10 then [digit_char n] else dec (n div 10) @ [digit_char (n mod 10)])"

declare dec.simps [simp del]

text \<open>\<open>str.zfill\<close>: the zero padding of \<open>%m\<close>, \<open>%d\<close> and of a padded \<open>%Y\<close>.\<close>

definition zfill :: "nat \<Rightarrow> string \<Rightarrow> string" where
  "zfill w s = replicate (w - length s) (CHR ''0'') @ s"

definition dec_value :: "string \<Rightarrow> nat" where
  "dec_value ds = foldl (\<lambda>a c. 10 * a + digit_val c) 0 ds"

subsection \<open>\<open>int(year)\<close> on a string\<close>

text \<open>
  \<open>int\<close> strips surrounding white space, reads an optional sign and then decimal
  digits in which single underscores may separate digits. Anything else raises
  \<open>ValueError\<close>, and so does a numeral of more than 4300 digits (the interpreter's
  default limit for the conversion of strings to integers).
\<close>

definition is_space :: "char \<Rightarrow> bool" where
  "is_space c = (let n = (of_char c :: nat) in (9 \<le> n \<and> n \<le> 13) \<or> (28 \<le> n \<and> n \<le> 32))"

definition strip :: "string \<Rightarrow> string" where
  "strip s = rev (dropWhile is_space (rev (dropWhile is_space s)))"

text \<open>
  \<open>digits_ok prev s\<close>: \<open>s\<close> is what may follow in a numeral, where \<open>prev\<close> says that
  the character before was a digit. An underscore needs a digit on both sides.
\<close>

fun digits_ok :: "bool \<Rightarrow> string \<Rightarrow> bool" where
  "digits_ok prev [] = prev"
| "digits_ok prev (c # cs) =
     (if is_digit c then digits_ok True cs
      else if c = CHR ''_'' then prev \<and> cs \<noteq> [] \<and> is_digit (hd cs) \<and> digits_ok False cs
      else False)"

definition int_max_str_digits :: nat where
  "int_max_str_digits = 4300"

definition parse_unsigned :: "string \<Rightarrow> py_exception + int" where
  "parse_unsigned s =
     (let ds = filter is_digit s in
      if \<not> digits_ok False s then Inl (ValueError ''invalid literal for int() with base 10'')
      else if int_max_str_digits < length ds
        then Inl (ValueError ''Exceeds the limit (4300 digits) for integer string conversion'')
      else Inr (int (dec_value ds)))"

definition py_int :: "string \<Rightarrow> py_exception + int" where
  "py_int s =
     (case strip s of
        [] \<Rightarrow> Inl (ValueError ''invalid literal for int() with base 10'')
      | c # cs \<Rightarrow>
          if c = CHR ''-'' then
            (case parse_unsigned cs of Inl e \<Rightarrow> Inl e | Inr v \<Rightarrow> Inr (- v))
          else if c = CHR ''+'' then parse_unsigned cs
          else parse_unsigned (c # cs))"

subsection \<open>Calendar dates\<close>

text \<open>
  \<open>datetime.date\<close>: a year from 1 to 9999, a month and a day of the proleptic
  Gregorian calendar.
\<close>

datatype date = Date (year_of: nat) (month_of: nat) (day_of: nat)

definition is_leap :: "nat \<Rightarrow> bool" where
  "is_leap y = (y mod 4 = 0 \<and> (y mod 100 \<noteq> 0 \<or> y mod 400 = 0))"

definition days_in_month :: "nat \<Rightarrow> nat \<Rightarrow> nat" where
  "days_in_month y m =
     (if m = 2 then (if is_leap y then 29 else 28)
      else if m = 4 \<or> m = 6 \<or> m = 9 \<or> m = 11 then 30
      else 31)"

definition MAXYEAR :: nat where
  "MAXYEAR = 9999"

fun valid_date :: "date \<Rightarrow> bool" where
  "valid_date (Date y m d) =
     (1 \<le> y \<and> y \<le> MAXYEAR \<and> 1 \<le> m \<and> m \<le> 12 \<and> 1 \<le> d \<and> d \<le> days_in_month y m)"

text \<open>
  \<open>d + timedelta(days=1)\<close>. Past the last day of year 9999 the addition raises
  \<open>OverflowError\<close>.
\<close>

fun next_day :: "date \<Rightarrow> py_exception + date" where
  "next_day (Date y m d) =
     (if d < days_in_month y m then Inr (Date y m (d + 1))
      else if m < 12 then Inr (Date y (m + 1) 1)
      else if y < MAXYEAR then Inr (Date (y + 1) 1 1)
      else Inl (OverflowError ''date value out of range''))"

text \<open>\<open>d + timedelta(days=n)\<close> for \<open>n \<ge> 0\<close>, as \<open>n\<close> steps to the next day.\<close>

fun add_days :: "date \<Rightarrow> nat \<Rightarrow> py_exception + date" where
  "add_days d 0 = Inr d"
| "add_days d (Suc n) = (case next_day d of Inl e \<Rightarrow> Inl e | Inr d' \<Rightarrow> add_days d' n)"

text \<open>
  \<open>strftime\<close>. \<open>%m\<close> and \<open>%d\<close> are two digits. \<open>%Y\<close> is printed by the platform's C
  library: with four digits padded by zeros on some platforms, without padding (so
  with fewer than four digits before year 1000) on others. The flag \<open>pad\<close> selects
  the platform.
\<close>

definition year_str :: "bool \<Rightarrow> nat \<Rightarrow> string" where
  "year_str pad y = (if pad then zfill 4 (dec y) else dec y)"

fun strftime_Y_m_d :: "bool \<Rightarrow> date \<Rightarrow> string" where
  "strftime_Y_m_d pad (Date y m d) =
     year_str pad y @ ''-'' @ zfill 2 (dec m) @ ''-'' @ zfill 2 (dec d)"

fun strftime_Ymd :: "bool \<Rightarrow> date \<Rightarrow> string" where
  "strftime_Ymd pad (Date y m d) = year_str pad y @ zfill 2 (dec m) @ zfill 2 (dec d)"

text \<open>
  \<open>datetime.strptime(s, '%Y-%m-%d').date()\<close>. The format compiles to the regular
  expression
  \<^verbatim>\<open>(\d\d\d\d)-(1[0-2]|0[1-9]|[1-9])-(3[0-1]|[1-2]\d|0[1-9]|[1-9]| [1-9])\<close>
  matched at the start of \<open>s\<close>; the alternatives are tried from the left. A month
  alternative that is not followed by \<open>-\<close> cannot be repaired by a later
  alternative (the later one is a prefix of it or starts with another character), so
  the matcher below takes the first alternative that matches. Input left over after
  the match, year 0 and a day past the end of the month raise \<open>ValueError\<close>.
\<close>

fun match_Y :: "string \<Rightarrow> (nat \<times> string) option" where
  "match_Y (a # b # c # d # rest) =
     (if is_digit a \<and> is_digit b \<and> is_digit c \<and> is_digit d
      then Some (dec_value [a, b, c, d], rest) else None)"
| "match_Y _ = None"

fun match_m :: "string \<Rightarrow> (nat \<times> string) option" where
  "match_m (a # b # rest) =
     (if a = CHR ''1'' \<and> (b = CHR ''0'' \<or> b = CHR ''1'' \<or> b = CHR ''2'')
        then Some (dec_value [a, b], rest)
      else if a = CHR ''0'' \<and> is_nonzero_digit b then Some (dec_value [a, b], rest)
      else if is_nonzero_digit a then Some (digit_val a, b # rest)
      else None)"
| "match_m [a] = (if is_nonzero_digit a then Some (digit_val a, []) else None)"
| "match_m [] = None"

fun match_d :: "string \<Rightarrow> (nat \<times> string) option" where
  "match_d (a # b # rest) =
     (if a = CHR ''3'' \<and> (b = CHR ''0'' \<or> b = CHR ''1'') then Some (dec_value [a, b], rest)
      else if (a = CHR ''1'' \<or> a = CHR ''2'') \<and> is_digit b then Some (dec_value [a, b], rest)
      else if a = CHR ''0'' \<and> is_nonzero_digit b then Some (dec_value [a, b], rest)
      else if is_nonzero_digit a then Some (digit_val a, b # rest)
      else if a = CHR '' '' \<and> is_nonzero_digit b then Some (digit_val b, rest)
      else None)"
| "match_d [a] = (if is_nonzero_digit a then Some (digit_val a, []) else None)"
| "match_d [] = None"

fun match_dash :: "string \<Rightarrow> string option" where
  "match_dash (c # rest) = (if c = CHR ''-'' then Some rest else None)"
| "match_dash [] = None"

definition strptime :: "string \<Rightarrow> py_exception + date" where
  "strptime s =
     (case match_Y s of
        None \<Rightarrow> Inl (ValueError ''time data does not match format'')
      | Some (y, s1) \<Rightarrow>
     (case match_dash s1 of
        None \<Rightarrow> Inl (ValueError ''time data does not match format'')
      | Some s2 \<Rightarrow>
     (case match_m s2 of
        None \<Rightarrow> Inl (ValueError ''time data does not match format'')
      | Some (m, s3) \<Rightarrow>
     (case match_dash s3 of
        None \<Rightarrow> Inl (ValueError ''time data does not match format'')
      | Some s4 \<Rightarrow>
     (case match_d s4 of
        None \<Rightarrow> Inl (ValueError ''time data does not match format'')
      | Some (d, s5) \<Rightarrow>
          if s5 \<noteq> [] then Inl (ValueError ''unconverted data remains'')
          else if y = 0 then Inl (ValueError ''year 0 is out of range'')
          else if days_in_month y m < d then Inl (ValueError ''day is out of range for month'')
          else Inr (Date y m d))))))"

subsection \<open>Strings of the scraper\<close>

text \<open>\<open>s.replace('_', ' ')\<close> and \<open>s.title()\<close> on ASCII letters.\<close>

definition replace_underscores :: "string \<Rightarrow> string" where
  "replace_underscores s = map (\<lambda>c. if c = CHR ''_'' then CHR '' '' else c) s"

definition is_upper :: "char \<Rightarrow> bool" where
  "is_upper c = (65 \<le> (of_char c :: nat) \<and> (of_char c :: nat) \<le> 90)"

definition is_lower :: "char \<Rightarrow> bool" where
  "is_lower c = (97 \<le> (of_char c :: nat) \<and> (of_char c :: nat) \<le> 122)"

definition to_upper :: "char \<Rightarrow> char" where
  "to_upper c = (if is_lower c then char_of ((of_char c :: nat) - 32) else c)"

definition to_lower :: "char \<Rightarrow> char" where
  "to_lower c = (if is_upper c then char_of ((of_char c :: nat) + 32) else c)"

text \<open>
  \<open>title_from prev s\<close>: a letter after a cased character is lowered, any other letter
  is raised; \<open>prev\<close> says that the character before was cased.
\<close>

fun title_from :: "bool \<Rightarrow> string \<Rightarrow> string" where
  "title_from prev [] = []"
| "title_from prev (c # cs) =
     (if prev then to_lower c else to_upper c) # title_from (is_upper c \<or> is_lower c) cs"

definition title :: "string \<Rightarrow> string" where
  "title s = title_from False s"

text \<open>\<open>os.path.join\<close> of POSIX: an absolute component discards what is before it.\<close>

definition path_join2 :: "string \<Rightarrow> string \<Rightarrow> string" where
  "path_join2 a b =
     (if b \<noteq> [] \<and> hd b = CHR ''/'' then b
      else if a = [] \<or> last a = CHR ''/'' then a @ b
      else a @ ''/'' @ b)"

definition os_path_join :: "string \<Rightarrow> string list \<Rightarrow> string" where
  "os_path_join a ps = foldl path_join2 a ps"

subsection \<open>The environment of a request\<close>

type_synonym bytes = "8 word list"

text \<open>The drawing calls that the fallback renderer makes on its canvas.\<close>

datatype canvas_op = DrawString int int string | ShowPage

text \<open>
  What a handler reads from outside the program while it serves one request:
  \<^item> \<open>today\<close>: \<open>date.today()\<close>;
  \<^item> \<open>current_timestamp\<close>: SQLite's \<open>CURRENT_TIMESTAMP\<close>, the default of the
    \<open>timestamp\<close> and \<open>created_at\<close> columns;
  \<^item> \<open>session_get url\<close>: \<open>self.session.get(url)\<close>, either \<open>Inl\<close> the text of the
    exception it raises or \<open>Inr\<close> the \<open>response.text\<close>;
  \<^item> \<open>pdfkit_from_string html\<close>: \<open>pdfkit.from_string(html, False)\<close>, \<open>None\<close> when it
    raises;
  \<^item> \<open>reportlab_pdf ops\<close>: the fallback (import of reportlab, the drawing calls,
    \<open>p.save()\<close>, \<open>buffer.getvalue()\<close>), \<open>Inl\<close> the text of the exception it raises;
  \<^item> \<open>write_error path\<close>: the exception, if any, that \<open>os.makedirs\<close> or \<open>open\<close> raise
    for this path (once the file is open, \<open>f.write\<close> is taken to succeed);
  \<^item> \<open>pads_year\<close>: whether the platform's \<open>%Y\<close> pads the year to four digits.
  The unused \<open>BeautifulSoup(response.text, 'html.parser')\<close> is taken not to raise.
\<close>

record env =
  today :: date
  current_timestamp :: string
  session_get :: "string \<Rightarrow> string + string"
  pdfkit_from_string :: "string \<Rightarrow> bytes option"
  reportlab_pdf :: "canvas_op list \<Rightarrow> string + bytes"
  write_error :: "string \<Rightarrow> py_exception option"
  pads_year :: bool

subsection \<open>\<open>CourtScraper\<close>\<close>

text \<open>
  The dictionary \<open>mock_data\<close>; \<open>judgment_url\<close> is \<open>None\<close> or a string. A scraper
  method returns either \<open>Inl msg\<close> for \<open>({'error': msg}, None)\<close>, or \<open>Inr\<close> the data
  with the raw response text: the handlers' test \<open>'error' in case_data\<close> is the case
  distinction on this sum.
\<close>

record case_data =
  parties :: string
  filing_date :: string
  next_hearing_date :: string
  case_status :: string
  judgment_url :: "string option"

definition scrape_high_court :: "env \<Rightarrow> string \<Rightarrow> string \<Rightarrow> int \<Rightarrow> string + case_data \<times> string" where
  "scrape_high_court env case_type case_number year =
     (case session_get env ''https://hcservices.ecourts.gov.in/hcservices/main.php'' of
        Inl msg \<Rightarrow> Inl msg
      | Inr text \<Rightarrow>
          (case add_days (today env) 7 of
             Inl e \<Rightarrow> Inl (str_of_exception e)
           | Inr d \<Rightarrow>
               Inr (\<lparr>parties = ''Petitioner: John Doe vs Respondent: State of Example'',
                     filing_date = ''2023-05-15'',
                     next_hearing_date = strftime_Y_m_d (pads_year env) d,
                     case_status = ''Pending'',
                     judgment_url = None\<rparr>, text)))"

definition scrape_district_court :: "env \<Rightarrow> string \<Rightarrow> string \<Rightarrow> int \<Rightarrow> string + case_data \<times> string" where
  "scrape_district_court env case_type case_number year =
     (case session_get env ''https://services.ecourts.gov.in/ecourtindia_v6/'' of
        Inl msg \<Rightarrow> Inl msg
      | Inr text \<Rightarrow>
          (case add_days (today env) 5 of
             Inl e \<Rightarrow> Inl (str_of_exception e)
           | Inr d \<Rightarrow>
               Inr (\<lparr>parties = ''Applicant: Jane Smith vs Opponent: ABC Corporation'',
                     filing_date = ''2023-06-20'',
                     next_hearing_date = strftime_Y_m_d (pads_year env) d,
                     case_status = ''Hearing'',
                     judgment_url = None\<rparr>, text)))"

text \<open>An entry of \<open>cause_list_data['cases']\<close> and the dictionary \<open>cause_list_data\<close>.\<close>

record case_entry =
  ce_case_number :: string
  ce_case_type :: string
  ce_parties :: string

record cause_list_data =
  court :: string
  date_str :: string
  cases :: "case_entry list"

definition nl :: string where
  "nl = [char_of (10 :: nat)]"

definition html_row :: "case_entry \<Rightarrow> string" where
  "html_row c = ''<tr><td>'' @ ce_case_number c @ ''</td><td>'' @ ce_case_type c
     @ ''</td><td>'' @ ce_parties c @ ''</td></tr>''"

definition html_content :: "cause_list_data \<Rightarrow> string" where
  "html_content d = concat
     [nl,
      ''        <html>'', nl,
      ''        <head>'', nl,
      ''            <title>Cause List - '', court d, ''</title>'', nl,
      ''            <style>'', nl,
      ''                body { font-family: Arial, sans-serif; margin: 40px; }'', nl,
      ''                h1 { color: #2c3e50; text-align: center; }'', nl,
      ''                table { width: 100%; border-collapse: collapse; margin-top: 20px; }'', nl,
      ''                th, td { border: 1px solid #ddd; padding: 12px; text-align: left; }'', nl,
      ''                th { background-color: #f2f2f2; }'', nl,
      ''            </style>'', nl,
      ''        </head>'', nl,
      ''        <body>'', nl,
      ''            <h1>'', court d, '' - Cause List</h1>'', nl,
      ''            <h2>Date: '', date_str d, ''</h2>'', nl,
      ''            <table>'', nl,
      ''                <tr>'', nl,
      ''                    <th>Case Number</th>'', nl,
      ''                    <th>Case Type</th>'', nl,
      ''                    <th>Parties</th>'', nl,
      ''                </tr>'', nl,
      ''                '', concat (map html_row (cases d)), nl,
      ''            </table>'', nl,
      ''        </body>'', nl,
      ''        </html>'', nl,
      ''        '']"

text \<open>The loop of the fallback over the cases, from the vertical position \<open>y\<close>.\<close>

fun draw_cases :: "int \<Rightarrow> case_entry list \<Rightarrow> canvas_op list" where
  "draw_cases y [] = []"
| "draw_cases y (c # cs) =
     DrawString 100 y (ce_case_number c @ '' - '' @ ce_case_type c)
     # DrawString 100 (y - 15) (''Parties: '' @ ce_parties c)
     # (if y - 40 < 100 then ShowPage # draw_cases 750 cs else draw_cases (y - 40) cs)"

definition fallback_ops :: "cause_list_data \<Rightarrow> canvas_op list" where
  "fallback_ops d =
     DrawString 100 750 (court d @ '' - Cause List'')
     # DrawString 100 730 (''Date: '' @ date_str d)
     # draw_cases 700 (cases d)"

text \<open>
  \<open>generate_cause_list_pdf\<close>: pdfkit first; on any exception the fallback, whose own
  exceptions leave the function.
\<close>

definition generate_cause_list_pdf :: "env \<Rightarrow> cause_list_data \<Rightarrow> string + bytes" where
  "generate_cause_list_pdf env d =
     (case pdfkit_from_string env (html_content d) of
        Some pdf \<Rightarrow> Inr pdf
      | None \<Rightarrow> reportlab_pdf env (fallback_ops d))"

text \<open>
  \<open>CourtScraper.download_cause_list\<close>. The outer sum is an exception that leaves the
  method (only the date addition before the \<open>try\<close> can raise one); the inner sum is
  the error dictionary or the triple of data, PDF and raw response text.
\<close>

definition download_cause_list ::
  "env \<Rightarrow> string \<Rightarrow> date option \<Rightarrow>
     py_exception + (string + cause_list_data \<times> bytes \<times> string)" where
  "download_cause_list env court_type target_date =
     (case (case target_date of None \<Rightarrow> add_days (today env) 1 | Some d \<Rightarrow> Inr d) of
        Inl e \<Rightarrow> Inl e
      | Inr d \<Rightarrow>
          Inr (case session_get env
                      (if court_type = ''high_court''
                       then ''https://hcservices.ecourts.gov.in/hcservices/main.php''
                       else ''https://services.ecourts.gov.in/ecourtindia_v6/'') of
                 Inl msg \<Rightarrow> Inl msg
               | Inr text \<Rightarrow>
                   (let cause_list_data =
                      \<lparr>court = title (replace_underscores court_type) @ '' Court'',
                       date_str = strftime_Y_m_d (pads_year env) d,
                       cases =
                         [\<lparr>ce_case_number = ''CR123/2023'', ce_case_type = ''Criminal'',
                           ce_parties = ''State vs John Doe''\<rparr>,
                          \<lparr>ce_case_number = ''CV456/2023'', ce_case_type = ''Civil'',
                           ce_parties = ''Smith vs Jones''\<rparr>,
                          \<lparr>ce_case_number = ''FA789/2023'', ce_case_type = ''Family'',
                           ce_parties = ''Doe vs Doe''\<rparr>]\<rparr>
                    in case generate_cause_list_pdf env cause_list_data of
                         Inl msg \<Rightarrow> Inl msg
                       | Inr pdf_content \<Rightarrow> Inr (cause_list_data, pdf_content, text))))"

subsection \<open>The store\<close>

text \<open>
  The rows of the tables \<open>queries\<close>, \<open>case_details\<close> and \<open>cause_lists\<close> created by
  \<open>init_db\<close>, in the order of their insertion, and the files written under
  \<open>static/pdfs\<close>.
\<close>

record query_row =
  q_id :: nat
  q_case_type :: string
  q_case_number :: string
  q_year :: int
  q_court_type :: string
  q_timestamp :: string
  q_raw_response :: string

record case_detail_row =
  cd_id :: nat
  cd_query_id :: nat
  cd_parties :: string
  cd_filing_date :: string
  cd_next_hearing_date :: string
  cd_case_status :: string
  cd_judgment_url :: "string option"

record cause_list_row =
  cl_id :: nat
  cl_court_type :: string
  cl_list_date :: string
  cl_pdf_path :: string
  cl_raw_data :: string
  cl_created_at :: string

record state =
  queries :: "query_row list"
  case_details :: "case_detail_row list"
  cause_lists :: "cause_list_row list"
  files :: "string \<rightharpoonup> bytes"

text \<open>
  \<open>INTEGER PRIMARY KEY AUTOINCREMENT\<close>: the new row gets an id one above the
  largest id of the table (no row is ever deleted, so that is the largest id the
  table ever had).
\<close>

definition next_rowid :: "nat list \<Rightarrow> nat" where
  "next_rowid ids = Suc (fold max ids 0)"

text \<open>
  A Python integer is bound to an SQLite \<open>INTEGER\<close> only if it fits 64 bits, signed;
  otherwise \<open>execute\<close> raises \<open>OverflowError\<close> and inserts nothing.
\<close>

definition sqlite_integer :: "int \<Rightarrow> bool" where
  "sqlite_integer i = (- (2 ^ 63) \<le> i \<and> i < 2 ^ 63)"

text \<open>
  \<open>INSERT INTO queries (case_type, case_number, year, court_type, raw_response)\<close>,
  with the new state and \<open>c.lastrowid\<close>.
\<close>

definition insert_query ::
  "env \<Rightarrow> state \<Rightarrow> string \<Rightarrow> string \<Rightarrow> int \<Rightarrow> string \<Rightarrow> string \<Rightarrow> py_exception + state \<times> nat" where
  "insert_query env st case_type case_number year court_type raw_response =
     (if \<not> sqlite_integer year
      then Inl (OverflowError ''Python int too large to convert to SQLite INTEGER'')
      else
        (let rid = next_rowid (map q_id (queries st)) in
         Inr (st\<lparr>queries := queries st @
                  [\<lparr>q_id = rid, q_case_type = case_type, q_case_number = case_number,
                    q_year = year, q_court_type = court_type,
                    q_timestamp = current_timestamp env,
                    q_raw_response = raw_response\<rparr>]\<rparr>, rid)))"

text \<open>
  \<open>INSERT INTO case_details (query_id, parties, filing_date, next_hearing_date,
  case_status, judgment_url)\<close>.
\<close>

definition insert_case_detail :: "state \<Rightarrow> nat \<Rightarrow> case_data \<Rightarrow> state" where
  "insert_case_detail st query_id cd =
     st\<lparr>case_details := case_details st @
          [\<lparr>cd_id = next_rowid (map cd_id (case_details st)), cd_query_id = query_id,
            cd_parties = parties cd, cd_filing_date = filing_date cd,
            cd_next_hearing_date = next_hearing_date cd,
            cd_case_status = case_status cd, cd_judgment_url = judgment_url cd\<rparr>]\<rparr>"

text \<open>\<open>INSERT INTO cause_lists (court_type, list_date, pdf_path, raw_data)\<close>.\<close>

definition insert_cause_list :: "env \<Rightarrow> state \<Rightarrow> string \<Rightarrow> string \<Rightarrow> string \<Rightarrow> string \<Rightarrow> state" where
  "insert_cause_list env st court_type list_date pdf_path raw_data =
     st\<lparr>cause_lists := cause_lists st @
          [\<lparr>cl_id = next_rowid (map cl_id (cause_lists st)), cl_court_type = court_type,
            cl_list_date = list_date, cl_pdf_path = pdf_path, cl_raw_data = raw_data,
            cl_created_at = current_timestamp env\<rparr>]\<rparr>"

subsection \<open>Requests and responses\<close>

text \<open>\<open>request.form\<close>: \<open>form k\<close> is \<open>request.form.get(k)\<close>.\<close>

type_synonym form = "string \<rightharpoonup> string"

definition form_get :: "form \<Rightarrow> string \<Rightarrow> string \<Rightarrow> string" where
  "form_get f k dflt = (case f k of None \<Rightarrow> dflt | Some v \<Rightarrow> v)"

text \<open>Python's truth value of \<open>request.form.get(k)\<close>: \<open>None\<close> and \<open>''\<close> are false.\<close>

fun truthy :: "string option \<Rightarrow> bool" where
  "truthy None = False"
| "truthy (Some s) = (s \<noteq> [])"

datatype json = JString string | JBool bool | JNull

text \<open>
  A response is \<open>jsonify(dict), status\<close>, \<open>send_file\<close> with its download name, MIME
  type and content, a rendered template, Flask's answer to an exception that
  leaves the handler, or Flask's answer to a request that matches no route.
\<close>

datatype response =
    Json nat "(string \<times> json) list"
  | SendFile string string bytes
  | RenderTemplate string
  | InternalServerError py_exception
  | NotFound
  | MethodNotAllowed


definition error_response :: "string \<Rightarrow> nat \<Rightarrow> response" where
  "error_response msg code = Json code [(''error'', JString msg)]"

definition jsonify_case_data :: "case_data \<Rightarrow> (string \<times> json) list" where
  "jsonify_case_data cd =
     [(''parties'', JString (parties cd)),
      (''filing_date'', JString (filing_date cd)),
      (''next_hearing_date'', JString (next_hearing_date cd)),
      (''case_status'', JString (case_status cd)),
      (''judgment_url'', (case judgment_url cd of None \<Rightarrow> JNull | Some u \<Rightarrow> JString u))]"

subsection \<open>The handlers\<close>

text \<open>
  A view function takes the environment, the store and the form, and returns its
  response with the store it leaves. The view function \<open>download_cause_list\<close> is
  named \<open>download_cause_list_handler\<close> here, apart from the scraper's method of the
  same name. A store is committed at the end of a handler only: an exception that
  leaves the handler before \<open>conn.commit()\<close> leaves the tables as they were.
\<close>

definition index :: "env \<Rightarrow> state \<Rightarrow> form \<Rightarrow> response \<times> state" where
  "index env st f = (RenderTemplate ''index.html'', st)"

definition search_case :: "env \<Rightarrow> state \<Rightarrow> form \<Rightarrow> response \<times> state" where
  "search_case env st f =
     (let court_type = form_get f ''court_type'' ''district_court'' in
      if \<not> (truthy (f ''case_type'') \<and> truthy (f ''case_number'') \<and> truthy (f ''year''))
      then (error_response ''All fields are required'' 400, st)
      else
        (let case_type = form_get f ''case_type'' [];
             case_number = form_get f ''case_number'' [] in
         case py_int (form_get f ''year'' []) of
           Inl e \<Rightarrow> (error_response ''Year must be a number'' 400, st)
         | Inr year \<Rightarrow>
             (case (if court_type = ''high_court''
                    then scrape_high_court env case_type case_number year
                    else scrape_district_court env case_type case_number year) of
                Inl msg \<Rightarrow> (error_response msg 500, st)
              | Inr (cd, raw_response) \<Rightarrow>
                  (case insert_query env st case_type case_number year court_type raw_response of
                     Inl e \<Rightarrow> (InternalServerError e, st)
                   | Inr (st1, query_id) \<Rightarrow>
                       (Json 200 (jsonify_case_data cd), insert_case_detail st1 query_id cd)))))"

text \<open>
  The block that \<open>download_cause_list\<close> and \<open>check_case_in_cause_list\<close> both
  contain, word for word (\<open>if target_date: ... else: ...\<close>): the \<open>date\<close> field parsed
  when it is true, tomorrow otherwise. \<open>Inl\<close> is the response that ends the handler:
  400 for a date that \<open>strptime\<close> rejects, Flask's internal server error when the
  addition of a day raises outside any \<open>try\<close>.
\<close>

definition target_date_of :: "env \<Rightarrow> form \<Rightarrow> response + date" where
  "target_date_of env f =
     (if truthy (f ''date'') then
        (case strptime (form_get f ''date'' []) of
           Inl e \<Rightarrow> Inl (error_response ''Invalid date format. Use YYYY-MM-DD'' 400)
         | Inr d \<Rightarrow> Inr d)
      else
        (case add_days (today env) 1 of
           Inl e \<Rightarrow> Inl (InternalServerError e)
         | Inr d \<Rightarrow> Inr d))"

definition download_cause_list_handler :: "env \<Rightarrow> state \<Rightarrow> form \<Rightarrow> response \<times> state" where
  "download_cause_list_handler env st f =
     (let court_type = form_get f ''court_type'' ''district_court'' in
      case target_date_of env f of
        Inl r \<Rightarrow> (r, st)
      | Inr target_date \<Rightarrow>
          (case download_cause_list env court_type (Some target_date) of
             Inl e \<Rightarrow> (InternalServerError e, st)
           | Inr (Inl msg) \<Rightarrow> (error_response msg 500, st)
           | Inr (Inr (cause_list_data, pdf_content, raw_response)) \<Rightarrow>
               (let pdf_filename = ''cause_list_'' @ court_type @ ''_''
                      @ strftime_Ymd (pads_year env) target_date @ ''.pdf'';
                    pdf_path = os_path_join ''static'' [''pdfs'', pdf_filename] in
                case write_error env pdf_path of
                  Some e \<Rightarrow> (InternalServerError e, st)
                | None \<Rightarrow>
                    (let st1 = st\<lparr>files := (files st)(pdf_path \<mapsto> pdf_content)\<rparr>;
                         st2 = insert_cause_list env st1 court_type
                                 (strftime_Y_m_d (pads_year env) target_date) pdf_path raw_response
                     in (SendFile pdf_filename ''application/pdf'' pdf_content, st2)))))"

definition check_case_in_cause_list :: "env \<Rightarrow> state \<Rightarrow> form \<Rightarrow> response \<times> state" where
  "check_case_in_cause_list env st f =
     (let court_type = form_get f ''court_type'' ''district_court'' in
      if \<not> truthy (f ''case_number'')
      then (error_response ''Case number is required'' 400, st)
      else
        (let case_number = form_get f ''case_number'' [] in
         case target_date_of env f of
           Inl r \<Rightarrow> (r, st)
         | Inr target_date \<Rightarrow>
             (case download_cause_list env court_type (Some target_date) of
                Inl e \<Rightarrow> (InternalServerError e, st)
              | Inr (Inl msg) \<Rightarrow> (error_response msg 500, st)
              | Inr (Inr (cause_list_data, pdf_content, raw_response)) \<Rightarrow>
                  (Json 200
                     [(''found'', JBool (list_ex (\<lambda>c. ce_case_number c = case_number)
                                          (cases cause_list_data))),
                      (''date'', JString (strftime_Y_m_d (pads_year env) target_date)),
                      (''court'', JString court_type),
                      (''case_number'', JString case_number)], st))))"

subsection \<open>The routes\<close>

datatype endpoint = Index | SearchCase | DownloadCauseList | CheckCaseInCauseList

text \<open>
  The \<open>@app.route\<close> decorators: rule, methods (\<open>GET\<close> when none is given), endpoint.
  The \<open>HEAD\<close> and \<open>OPTIONS\<close> that Flask adds to a rule by itself are left out.
\<close>

definition url_map :: "(string \<times> string list \<times> endpoint) list" where
  "url_map =
     [(''/'', [''GET''], Index),
      (''/search_case'', [''POST''], SearchCase),
      (''/download_cause_list'', [''POST''], DownloadCauseList),
      (''/check_case_in_cause_list'', [''POST''], CheckCaseInCauseList)]"

fun view_function :: "endpoint \<Rightarrow> env \<Rightarrow> state \<Rightarrow> form \<Rightarrow> response \<times> state" where
  "view_function Index = index"
| "view_function SearchCase = search_case"
| "view_function DownloadCauseList = download_cause_list_handler"
| "view_function CheckCaseInCauseList = check_case_in_cause_list"

text \<open>The rules whose path is the requested one, and the dispatch of a request.\<close>

definition rules_for :: "string \<Rightarrow> (string \<times> string list \<times> endpoint) list" where
  "rules_for path = filter (\<lambda>r. fst r = path) url_map"

definition dispatch :: "env \<Rightarrow> state \<Rightarrow> string \<Rightarrow> string \<Rightarrow> form \<Rightarrow> response \<times> state" where
  "dispatch env st http_method path f =
     (case rules_for path of
        [] \<Rightarrow> (NotFound, st)
      | rs \<Rightarrow>
          (case filter (\<lambda>r. http_method \<in> set (fst (snd r))) rs of
             [] \<Rightarrow> (MethodNotAllowed, st)
           | r # _ \<Rightarrow> view_function (snd (snd r)) env st f))"

subsection \<open>A sample environment\<close>

text \<open>
  The portal answers, pdfkit renders, every path is writable, the C library does not
  pad the year; the store is empty. The sample runs below start from here.
\<close>

definition sample_env :: env where
  "sample_env =
     \<lparr>today = Date 2024 2 28,
      current_timestamp = ''2024-02-28 10:00:00'',
      session_get = (\<lambda>url. Inr ''<html></html>''),
      pdfkit_from_string = (\<lambda>html. Some [37, 80, 68, 70]),
      reportlab_pdf = (\<lambda>ops. Inl ''No module named reportlab''),
      write_error = (\<lambda>path. None),
      pads_year = False\<rparr>"

definition empty_state :: state where
  "empty_state = \<lparr>queries = [], case_details = [], cause_lists = [], files = Map.empty\<rparr>"

section \<open>Evaluation lemmas\<close>

lemma digit_char_simps:
  "digit_char 0 = CHR ''0''" "digit_char 1 = CHR ''1''" "digit_char 2 = CHR ''2''"
  "digit_char 3 = CHR ''3''" "digit_char 4 = CHR ''4''" "digit_char 5 = CHR ''5''"
  "digit_char 6 = CHR ''6''" "digit_char 7 = CHR ''7''" "digit_char 8 = CHR ''8''"
  "digit_char 9 = CHR ''9''" "digit_char (Suc 0) = CHR ''1''"
  by code_simp+

lemma add_days_1: "add_days d 1 = next_day d"
proof -
  have "add_days d (Suc 0) = next_day d"
    by (cases "next_day d") simp_all
  then show ?thesis by simp
qed

lemma add_days_numeral:
  "add_days d (numeral k) =
     (case next_day d of Inl e \<Rightarrow> Inl e | Inr d' \<Rightarrow> add_days d' (pred_numeral k))"
  by (simp add: numeral_eq_Suc)

lemmas calendar_eval = add_days_1 add_days_numeral days_in_month_def is_leap_def MAXYEAR_def

lemmas strftime_eval = year_str_def zfill_def dec.simps digit_char_simps

lemmas strptime_eval = strptime_def is_digit_def is_nonzero_digit_def dec_value_def
  digit_val_def days_in_month_def is_leap_def

lemmas int_eval = py_int_def strip_def is_space_def parse_unsigned_def is_digit_def
  dec_value_def digit_val_def int_max_str_digits_def

lemma sample_tomorrow: "next_day (today sample_env) = Inr (Date 2024 2 29)"
  by (simp add: sample_env_def calendar_eval)

lemma sample_today_plus_5: "add_days (today sample_env) 5 = Inr (Date 2024 3 4)"
  by (simp add: sample_env_def calendar_eval)

lemma sample_today_plus_7: "add_days (today sample_env) 7 = Inr (Date 2024 3 6)"
  by (simp add: sample_env_def calendar_eval)

lemma sample_env_simps:
  "current_timestamp sample_env = ''2024-02-28 10:00:00''"
  "session_get sample_env url = Inr ''<html></html>''"
  "pdfkit_from_string sample_env html = Some [37, 80, 68, 70]"
  "write_error sample_env path = None"
  "pads_year sample_env = False"
  by (simp_all add: sample_env_def)

lemma empty_state_simps:
  "queries empty_state = []" "case_details empty_state = []"
  "cause_lists empty_state = []" "files empty_state = Map.empty"
  by (simp_all add: empty_state_def)

lemma sample_court: "title (replace_underscores ''district_court'') = ''District Court''"
  by code_simp

lemma sample_download:
  "download_cause_list sample_env ''district_court'' (Some d) =
     Inr (Inr (\<lparr>court = ''District Court Court'',
                 date_str = strftime_Y_m_d False d,
                 cases =
                   [\<lparr>ce_case_number = ''CR123/2023'', ce_case_type = ''Criminal'',
                     ce_parties = ''State vs John Doe''\<rparr>,
                    \<lparr>ce_case_number = ''CV456/2023'', ce_case_type = ''Civil'',
                     ce_parties = ''Smith vs Jones''\<rparr>,
                    \<lparr>ce_case_number = ''FA789/2023'', ce_case_type = ''Family'',
                     ce_parties = ''Doe vs Doe''\<rparr>]\<rparr>,
               [37, 80, 68, 70], ''<html></html>''))"
  by (simp add: download_cause_list_def generate_cause_list_pdf_def sample_env_simps sample_court)


lemma sample_bad_date: "strptime ''tomorrow'' = Inl (ValueError ''time data does not match format'')"
  by (simp add: strptime_eval)

lemma sample_lenient_date: "strptime ''2024-3-1'' = Inr (Date 2024 3 1)"
  by (simp add: strptime_eval)


lemma sample_huge_year: "py_int ''9223372036854775808'' = Inr 9223372036854775808"
  by (simp add: int_eval)




lemma sample_check_run_tomorrow:
  "check_case_in_cause_list sample_env empty_state [''case_number'' \<mapsto> ''AB1/2020''] =
     (Json 200 [(''found'', JBool False), (''date'', JString ''2024-02-29''),
                (''court'', JString ''district_court''),
                (''case_number'', JString ''AB1/2020'')], empty_state)"
  by (simp add: check_case_in_cause_list_def form_get_def target_date_of_def
        sample_tomorrow sample_download strftime_eval sample_env_simps Let_def)


lemma sample_download_run_any:
  "f ''court_type'' = None \<Longrightarrow> \<not> truthy (f ''date'') \<Longrightarrow>
   download_cause_list_handler sample_env empty_state f =
     (SendFile ''cause_list_district_court_20240229.pdf'' ''application/pdf'' [37, 80, 68, 70],
      empty_state
        \<lparr>files := [''static/pdfs/cause_list_district_court_20240229.pdf'' \<mapsto> [37, 80, 68, 70]],
         cause_lists :=
           [\<lparr>cl_id = 1, cl_court_type = ''district_court'', cl_list_date = ''2024-02-29'',
             cl_pdf_path = ''static/pdfs/cause_list_district_court_20240229.pdf'',
             cl_raw_data = ''<html></html>'',
             cl_created_at = ''2024-02-28 10:00:00''\<rparr>]\<rparr>)"
  by (simp add: download_cause_list_handler_def form_get_def target_date_of_def sample_tomorrow
        sample_download strftime_eval os_path_join_def path_join2_def sample_env_simps
        insert_cause_list_def next_rowid_def empty_state_simps Let_def)

section \<open>Facts about the handlers\<close>





lemma download_cause_list_Some_not_raised: "download_cause_list env ct (Some d) \<noteq> Inl e"
  by (simp add: download_cause_list_def)



lemma fold_max_ge: "a \<le> fold max ids (a::nat)"
  by (induction ids arbitrary: a) (auto intro: order_trans [OF max.cobounded2])

lemma fold_max_mem: "i \<in> set ids \<Longrightarrow> i \<le> fold max ids (a::nat)"
proof (induction ids arbitrary: a)
  case Nil
  then show ?case by simp
next
  case (Cons x xs)
  show ?case
  proof (cases "i = x")
    case True
    have "x \<le> max x a" by simp
    also have "\<dots> \<le> fold max xs (max x a)" by (rule fold_max_ge)
    finally show ?thesis using True by simp
  next
    case False
    with Cons.prems have "i \<in> set xs" by simp
    then show ?thesis using Cons.IH by simp
  qed
qed

lemma next_rowid_fresh: "next_rowid ids \<notin> set ids"
  using fold_max_mem [of "next_rowid ids" ids 0] by (auto simp: next_rowid_def)

lemma insert_query_queries:
  "insert_query env st ct cn y c raw = Inr (st1, qid) \<Longrightarrow>
     (\<exists>row. queries st1 = queries st @ [row]) \<and> case_details st1 = case_details st
     \<and> cause_lists st1 = cause_lists st \<and> files st1 = files st"
  by (auto simp: insert_query_def Let_def split: if_splits)

lemma search_case_appends:
  "prefix (queries st) (queries (snd (search_case env st f)))
   \<and> prefix (case_details st) (case_details (snd (search_case env st f)))
   \<and> cause_lists (snd (search_case env st f)) = cause_lists st
   \<and> files (snd (search_case env st f)) = files st"
  unfolding search_case_def Let_def
  by (auto simp: insert_case_detail_def dest!: insert_query_queries split: sum.splits prod.splits)

lemma download_handler_appends:
  "queries (snd (download_cause_list_handler env st f)) = queries st
   \<and> case_details (snd (download_cause_list_handler env st f)) = case_details st
   \<and> prefix (cause_lists st) (cause_lists (snd (download_cause_list_handler env st f)))"
  unfolding download_cause_list_handler_def Let_def
  by (auto simp: insert_cause_list_def split: sum.splits prod.splits option.splits)

lemma check_case_state: "snd (check_case_in_cause_list env st f) = st"
  unfolding check_case_in_cause_list_def Let_def
  by (auto split: sum.splits prod.splits)

lemma index_state: "snd (index env st f) = st"
  by (simp add: index_def)

lemma view_function_appends:
  "prefix (queries st) (queries (snd (view_function ep env st f)))
   \<and> prefix (case_details st) (case_details (snd (view_function ep env st f)))
   \<and> prefix (cause_lists st) (cause_lists (snd (view_function ep env st f)))"
  by (cases ep) (simp_all add: index_state check_case_state search_case_appends download_handler_appends)

lemma dispatch_cases:
  "dispatch env st http_method path f = (NotFound, st)
   \<or> dispatch env st http_method path f = (MethodNotAllowed, st)
   \<or> (\<exists>ep. dispatch env st http_method path f = view_function ep env st f)"
  unfolding dispatch_def by (auto split: list.splits)


section \<open>Dates and their strings\<close>

text \<open>
  A date that \<open>strptime\<close> returns is a date of the calendar, and so is the day after
  a date. For such a date \<open>%Y-%m-%d\<close> prints four, two and two digits, provided the
  platform pads the year or the year has four digits.
\<close>

lemma is_digit_digit_char: "k < 10 \<Longrightarrow> is_digit (digit_char k)"
  by (simp add: is_digit_def digit_char_def)

lemma dec_digits: "list_all is_digit (dec n)"
proof (induction n rule: dec.induct)
  case (1 n)
  show ?case
  proof (cases "n < 10")
    case True
    then show ?thesis by (subst dec.simps) (simp add: is_digit_digit_char)
  next
    case False
    with 1 have "list_all is_digit (dec (n div 10))" by simp
    moreover have "is_digit (digit_char (n mod 10))" by (simp add: is_digit_digit_char)
    ultimately show ?thesis using False by (subst dec.simps) simp
  qed
qed

lemma dec_1: "n < 10 \<Longrightarrow> length (dec n) = 1"
  by (subst dec.simps) simp

lemma dec_2: "10 \<le> n \<Longrightarrow> n < 100 \<Longrightarrow> length (dec n) = 2"
  by (subst dec.simps) (simp add: dec_1)

lemma dec_3: "100 \<le> n \<Longrightarrow> n < 1000 \<Longrightarrow> length (dec n) = 3"
  by (subst dec.simps) (simp add: dec_2)

lemma dec_4: "1000 \<le> n \<Longrightarrow> n < 10000 \<Longrightarrow> length (dec n) = 4"
  by (subst dec.simps) (simp add: dec_3)

lemma dec_le_2: "n < 100 \<Longrightarrow> length (dec n) \<le> 2"
  using dec_1 [of n] dec_2 [of n] by (cases "n < 10") auto

lemma dec_le_4: "n < 10000 \<Longrightarrow> length (dec n) \<le> 4"
  using dec_1 [of n] dec_2 [of n] dec_3 [of n] dec_4 [of n]
  by (cases "n < 10"; cases "n < 100"; cases "n < 1000") auto

lemma zfill_digits: "list_all is_digit s \<Longrightarrow> list_all is_digit (zfill w s)"
  by (auto simp: zfill_def list_all_iff is_digit_def)

lemma zfill_length: "length s \<le> w \<Longrightarrow> length (zfill w s) = w"
  by (simp add: zfill_def)

lemma days_in_month_le: "days_in_month y m \<le> 31"
  by (simp add: days_in_month_def)

lemma strftime_shape:
  assumes "valid_date (Date y m d)" and "pad \<or> 1000 \<le> y"
  shows "strftime_Y_m_d pad (Date y m d)
           = year_str pad y @ ''-'' @ zfill 2 (dec m) @ ''-'' @ zfill 2 (dec d)
     \<and> strftime_Ymd pad (Date y m d) = year_str pad y @ zfill 2 (dec m) @ zfill 2 (dec d)
     \<and> length (year_str pad y) = 4 \<and> list_all is_digit (year_str pad y)
     \<and> length (zfill 2 (dec m)) = 2 \<and> list_all is_digit (zfill 2 (dec m))
     \<and> length (zfill 2 (dec d)) = 2 \<and> list_all is_digit (zfill 2 (dec d))"
proof -
  from assms(1) have y: "y < 10000" and m: "m < 100" and d: "d < 100"
    using days_in_month_le [of y m] by (auto simp: MAXYEAR_def)
  have "length (year_str pad y) = 4"
    using assms(2) y dec_le_4 [of y] dec_4 [of y]
    by (auto simp: year_str_def zfill_length)
  then show ?thesis
    using m d dec_le_2 [of m] dec_le_2 [of d]
    by (simp add: zfill_length zfill_digits dec_digits year_str_def)
qed

lemma days_in_month_ge: "28 \<le> days_in_month y m"
  by (simp add: days_in_month_def)

lemma days_in_month_pos: "Suc 0 \<le> days_in_month y m"
  using days_in_month_ge [of y m] by arith

lemma next_day_valid: "valid_date d \<Longrightarrow> next_day d = Inr d' \<Longrightarrow> valid_date d'"
  by (cases d) (auto simp: MAXYEAR_def days_in_month_pos split: if_splits)

lemma add_days_valid: "valid_date d \<Longrightarrow> add_days d n = Inr d' \<Longrightarrow> valid_date d'"
  by (induction n arbitrary: d) (auto split: sum.splits dest: next_day_valid)

lemma digit_val_le: "is_digit c \<Longrightarrow> digit_val c \<le> 9"
  unfolding digit_val_def is_digit_def by arith

lemma dec_value_4:
  assumes "is_digit a" "is_digit b" "is_digit c" "is_digit d"
  shows "dec_value [a, b, c, d] \<le> 9999"
  using assms [THEN digit_val_le] by (simp add: dec_value_def)

lemma match_Y_bound: "match_Y s = Some (y, r) \<Longrightarrow> y \<le> 9999"
  by (induction s rule: match_Y.induct) (auto simp: dec_value_4 split: if_splits)

lemma match_m_bound: "match_m s = Some (m, r) \<Longrightarrow> 1 \<le> m \<and> m \<le> 12"
  by (induction s rule: match_m.induct)
     (auto simp: dec_value_def digit_val_def is_nonzero_digit_def split: if_splits)

lemma match_d_bound: "match_d s = Some (d, r) \<Longrightarrow> 1 \<le> d"
  by (induction s rule: match_d.induct)
     (auto simp: dec_value_def digit_val_def is_nonzero_digit_def is_digit_def split: if_splits)

lemma strptime_valid: "strptime s = Inr d \<Longrightarrow> valid_date d"
  unfolding strptime_def
  by (auto simp: MAXYEAR_def split: option.splits prod.splits if_splits
        dest!: match_Y_bound match_m_bound match_d_bound)

section \<open>The stub scraper\<close>

text \<open>
  C6. The scrapers return mocked data: the result of \<open>scrape_high_court\<close> and of
  \<open>scrape_district_court\<close> is the same for any two triples of case type, case
  number and year. A success is exactly the fixed record (hearing in 7 days,
  \<open>Pending\<close>, for the high court; in 5 days, \<open>Hearing\<close>, for the district court; no
  judgment URL) with the text the portal answered.
\<close>

theorem scrape_mock_data_static:
  "scrape_high_court env t1 n1 y1 = scrape_high_court env t2 n2 y2
   \<and> scrape_district_court env t1 n1 y1 = scrape_district_court env t2 n2 y2
   \<and> (scrape_high_court env t1 n1 y1 = Inr (cd, raw) \<longleftrightarrow>
        (\<exists>d. add_days (today env) 7 = Inr d
           \<and> session_get env ''https://hcservices.ecourts.gov.in/hcservices/main.php'' = Inr raw
           \<and> cd = \<lparr>parties = ''Petitioner: John Doe vs Respondent: State of Example'',
                   filing_date = ''2023-05-15'',
                   next_hearing_date = strftime_Y_m_d (pads_year env) d,
                   case_status = ''Pending'', judgment_url = None\<rparr>))
   \<and> (scrape_district_court env t1 n1 y1 = Inr (cd', raw') \<longleftrightarrow>
        (\<exists>d. add_days (today env) 5 = Inr d
           \<and> session_get env ''https://services.ecourts.gov.in/ecourtindia_v6/'' = Inr raw'
           \<and> cd' = \<lparr>parties = ''Applicant: Jane Smith vs Opponent: ABC Corporation'',
                    filing_date = ''2023-06-20'',
                    next_hearing_date = strftime_Y_m_d (pads_year env) d,
                    case_status = ''Hearing'', judgment_url = None\<rparr>))"
  unfolding scrape_high_court_def scrape_district_court_def
  by (auto split: sum.splits)

theorem scrape_mock_data_static_witness:
  "scrape_high_court sample_env ''CR'' ''12'' 2023 = scrape_high_court sample_env ''CV'' ''7'' 1999
   \<and> scrape_district_court sample_env ''CR'' ''12'' 2023
       = scrape_district_court sample_env ''CV'' ''7'' 1999
   \<and> scrape_high_court sample_env ''CR'' ''12'' 2023 =
       Inr (\<lparr>parties = ''Petitioner: John Doe vs Respondent: State of Example'',
             filing_date = ''2023-05-15'', next_hearing_date = ''2024-03-06'',
             case_status = ''Pending'', judgment_url = None\<rparr>, ''<html></html>'')
   \<and> scrape_district_court sample_env ''CR'' ''12'' 2023 =
       Inr (\<lparr>parties = ''Applicant: Jane Smith vs Opponent: ABC Corporation'',
             filing_date = ''2023-06-20'', next_hearing_date = ''2024-03-04'',
             case_status = ''Hearing'', judgment_url = None\<rparr>, ''<html></html>'')"
  using scrape_mock_data_static [of sample_env "''CR''" "''12''" 2023 "''CV''" "''7''" 1999
      "\<lparr>parties = ''Petitioner: John Doe vs Respondent: State of Example'',
        filing_date = ''2023-05-15'', next_hearing_date = ''2024-03-06'',
        case_status = ''Pending'', judgment_url = None\<rparr>" "''<html></html>''"
      "\<lparr>parties = ''Applicant: Jane Smith vs Opponent: ABC Corporation'',
        filing_date = ''2023-06-20'', next_hearing_date = ''2024-03-04'',
        case_status = ''Hearing'', judgment_url = None\<rparr>" "''<html></html>''"]
  by (simp add: scrape_high_court_def scrape_district_court_def sample_today_plus_5
      sample_today_plus_7 sample_env_simps strftime_eval)

section \<open>The cause list\<close>







section \<open>The target date\<close>

text \<open>
  C9. When the request has no \<open>date\<close> field (or an empty one) and tomorrow is a date,
  both cause-list handlers work on tomorrow: the download names its file and dates its
  row by tomorrow and fetches tomorrow's list, the membership check fetches
  tomorrow's list and answers tomorrow as \<open>date\<close>; the scraper's own default target
  date is tomorrow as well.
\<close>

theorem default_target_date_is_tomorrow:
  assumes "\<not> truthy (f ''date'')" and "add_days (today env) 1 = Inr d"
  shows "download_cause_list env court_type None = download_cause_list env court_type (Some d)
     \<and> (download_cause_list_handler env st f = (SendFile name mime body, st') \<longrightarrow>
          name = ''cause_list_'' @ form_get f ''court_type'' ''district_court'' @ ''_''
                   @ strftime_Ymd (pads_year env) d @ ''.pdf''
          \<and> (\<exists>data raw.
                download_cause_list env (form_get f ''court_type'' ''district_court'') (Some d)
                  = Inr (Inr (data, body, raw)))
          \<and> cl_list_date (last (cause_lists st')) = strftime_Y_m_d (pads_year env) d)
     \<and> (check_case_in_cause_list env st f = (Json 200 b, st'') \<longrightarrow>
          map_of b ''date'' = Some (JString (strftime_Y_m_d (pads_year env) d))
          \<and> (\<exists>data pdf raw.
                download_cause_list env (form_get f ''court_type'' ''district_court'') (Some d)
                  = Inr (Inr (data, pdf, raw))))"
proof -
  have t: "target_date_of env f = Inr d"
    using assms by (simp add: target_date_of_def)
  have 1: "download_cause_list env court_type None = download_cause_list env court_type (Some d)"
    using assms(2) by (simp add: download_cause_list_def)
  have 2: "download_cause_list_handler env st f = (SendFile name mime body, st') \<longrightarrow>
          name = ''cause_list_'' @ form_get f ''court_type'' ''district_court'' @ ''_''
                   @ strftime_Ymd (pads_year env) d @ ''.pdf''
          \<and> (\<exists>data raw.
                download_cause_list env (form_get f ''court_type'' ''district_court'') (Some d)
                  = Inr (Inr (data, body, raw)))
          \<and> cl_list_date (last (cause_lists st')) = strftime_Y_m_d (pads_year env) d"
    unfolding download_cause_list_handler_def Let_def t
    by (auto simp: insert_cause_list_def error_response_def
          split: sum.splits prod.splits option.splits)
  have 3: "check_case_in_cause_list env st f = (Json 200 b, st'') \<longrightarrow>
          map_of b ''date'' = Some (JString (strftime_Y_m_d (pads_year env) d))
          \<and> (\<exists>data pdf raw.
                download_cause_list env (form_get f ''court_type'' ''district_court'') (Some d)
                  = Inr (Inr (data, pdf, raw)))"
    unfolding check_case_in_cause_list_def Let_def t
    by (auto simp: error_response_def split: if_splits sum.splits prod.splits)
  from 1 2 3 show ?thesis by blast
qed

theorem default_target_date_is_tomorrow_witness:
  "\<not> truthy ([''case_number'' \<mapsto> ''AB1/2020''] ''date'')
   \<and> add_days (today sample_env) 1 = Inr (Date 2024 2 29)
   \<and> download_cause_list sample_env ''high_court'' None
       = download_cause_list sample_env ''high_court'' (Some (Date 2024 2 29))
   \<and> download_cause_list_handler sample_env empty_state [''case_number'' \<mapsto> ''AB1/2020''] =
       (SendFile ''cause_list_district_court_20240229.pdf'' ''application/pdf'' [37, 80, 68, 70],
        empty_state
          \<lparr>files := [''static/pdfs/cause_list_district_court_20240229.pdf'' \<mapsto> [37, 80, 68, 70]],
           cause_lists :=
             [\<lparr>cl_id = 1, cl_court_type = ''district_court'', cl_list_date = ''2024-02-29'',
               cl_pdf_path = ''static/pdfs/cause_list_district_court_20240229.pdf'',
               cl_raw_data = ''<html></html>'',
               cl_created_at = ''2024-02-28 10:00:00''\<rparr>]\<rparr>)
   \<and> ''cause_list_district_court_20240229.pdf''
       = ''cause_list_'' @ ''district_court'' @ ''_''
           @ strftime_Ymd (pads_year sample_env) (Date 2024 2 29) @ ''.pdf''
   \<and> ''2024-02-29'' = strftime_Y_m_d (pads_year sample_env) (Date 2024 2 29)
   \<and> check_case_in_cause_list sample_env empty_state [''case_number'' \<mapsto> ''AB1/2020''] =
       (Json 200 [(''found'', JBool False), (''date'', JString ''2024-02-29''),
                  (''court'', JString ''district_court''),
                  (''case_number'', JString ''AB1/2020'')], empty_state)
   \<and> map_of [(''found'', JBool False), (''date'', JString ''2024-02-29''),
              (''court'', JString ''district_court''),
              (''case_number'', JString ''AB1/2020'')] ''date''
       = Some (JString (strftime_Y_m_d (pads_year sample_env) (Date 2024 2 29)))"
  using default_target_date_is_tomorrow [of "[''case_number'' \<mapsto> ''AB1/2020'']" sample_env
      "Date 2024 2 29" "''high_court''" empty_state
      "''cause_list_district_court_20240229.pdf''" "''application/pdf''" "[37, 80, 68, 70]"
      "empty_state
          \<lparr>files := [''static/pdfs/cause_list_district_court_20240229.pdf'' \<mapsto> [37, 80, 68, 70]],
           cause_lists :=
             [\<lparr>cl_id = 1, cl_court_type = ''district_court'', cl_list_date = ''2024-02-29'',
               cl_pdf_path = ''static/pdfs/cause_list_district_court_20240229.pdf'',
               cl_raw_data = ''<html></html>'',
               cl_created_at = ''2024-02-28 10:00:00''\<rparr>]\<rparr>"
      "[(''found'', JBool False), (''date'', JString ''2024-02-29''),
        (''court'', JString ''district_court''), (''case_number'', JString ''AB1/2020'')]"
      empty_state]
    sample_check_run_tomorrow
    sample_download_run_any [of "[''case_number'' \<mapsto> ''AB1/2020'']"]
  by (simp add: sample_tomorrow form_get_def)

text \<open>
  C10, as stated, fails: a membership check without a case number answers
  \<open>Case number is required\<close> whatever the date field holds, an empty date field
  counts as no date, and \<open>strptime\<close> accepts a month or a day of one digit.
\<close>

theorem invalid_date_counterexample:
  "check_case_in_cause_list sample_env empty_state [''date'' \<mapsto> ''tomorrow'']
     = (Json 400 [(''error'', JString ''Case number is required'')], empty_state)
   \<and> fst (download_cause_list_handler sample_env empty_state [''date'' \<mapsto> ''''])
     = SendFile ''cause_list_district_court_20240229.pdf'' ''application/pdf'' [37, 80, 68, 70]
   \<and> fst (download_cause_list_handler sample_env empty_state [''date'' \<mapsto> ''2024-3-1''])
     = SendFile ''cause_list_district_court_20240301.pdf'' ''application/pdf'' [37, 80, 68, 70]"
proof (intro conjI)
  show "check_case_in_cause_list sample_env empty_state [''date'' \<mapsto> ''tomorrow'']
     = (Json 400 [(''error'', JString ''Case number is required'')], empty_state)"
    by (simp add: check_case_in_cause_list_def error_response_def)
  show "fst (download_cause_list_handler sample_env empty_state [''date'' \<mapsto> ''''])
     = SendFile ''cause_list_district_court_20240229.pdf'' ''application/pdf'' [37, 80, 68, 70]"
    by (simp add: download_cause_list_handler_def form_get_def target_date_of_def
        sample_tomorrow sample_download strftime_eval sample_env_simps Let_def)
  show "fst (download_cause_list_handler sample_env empty_state [''date'' \<mapsto> ''2024-3-1''])
     = SendFile ''cause_list_district_court_20240301.pdf'' ''application/pdf'' [37, 80, 68, 70]"
    by (simp add: download_cause_list_handler_def form_get_def target_date_of_def
        sample_lenient_date sample_download strftime_eval sample_env_simps Let_def)
qed

text \<open>
  C10, amended. When the \<open>date\<close> field is a non-empty string that \<open>strptime\<close> rejects
  for the format \<open>%Y-%m-%d\<close>, \<open>download_cause_list\<close> answers 400 with
  \<open>Invalid date format. Use YYYY-MM-DD\<close>, and so does \<open>check_case_in_cause_list\<close>
  when a non-empty case number is submitted; the store (tables and files) is
  unchanged.
\<close>

theorem invalid_date_rejected:
  assumes "f ''date'' = Some s" and "s \<noteq> []" and "strptime s = Inl e"
  shows "download_cause_list_handler env st f
           = (error_response ''Invalid date format. Use YYYY-MM-DD'' 400, st)
     \<and> (truthy (f ''case_number'') \<longrightarrow>
          check_case_in_cause_list env st f
            = (error_response ''Invalid date format. Use YYYY-MM-DD'' 400, st))"
proof -
  have t: "target_date_of env f = Inl (error_response ''Invalid date format. Use YYYY-MM-DD'' 400)"
    using assms by (simp add: target_date_of_def form_get_def)
  show ?thesis
    by (simp add: download_cause_list_handler_def check_case_in_cause_list_def t)
qed

theorem invalid_date_rejected_witness:
  "[''case_number'' \<mapsto> ''CV456/2023'', ''date'' \<mapsto> ''tomorrow''] ''date'' = Some ''tomorrow''
   \<and> ''tomorrow'' \<noteq> []
   \<and> strptime ''tomorrow'' = Inl (ValueError ''time data does not match format'')
   \<and> truthy ([''case_number'' \<mapsto> ''CV456/2023'', ''date'' \<mapsto> ''tomorrow''] ''case_number'')
   \<and> download_cause_list_handler sample_env empty_state
        [''case_number'' \<mapsto> ''CV456/2023'', ''date'' \<mapsto> ''tomorrow'']
       = (error_response ''Invalid date format. Use YYYY-MM-DD'' 400, empty_state)
   \<and> check_case_in_cause_list sample_env empty_state
        [''case_number'' \<mapsto> ''CV456/2023'', ''date'' \<mapsto> ''tomorrow'']
       = (error_response ''Invalid date format. Use YYYY-MM-DD'' 400, empty_state)"
  using invalid_date_rejected [of "[''case_number'' \<mapsto> ''CV456/2023'', ''date'' \<mapsto> ''tomorrow'']"
      "''tomorrow''" "ValueError ''time data does not match format''" sample_env empty_state]
  by (simp add: sample_bad_date)

section \<open>Case lookup\<close>

text \<open>
  What a lookup stores when the scrape succeeds and the year fits an SQLite
  \<open>INTEGER\<close>: one \<open>queries\<close> row with a fresh id and one \<open>case_details\<close> row that refers
  to it.
\<close>

lemma search_case_persists:
  assumes "f ''case_type'' = Some ct" "ct \<noteq> []" "f ''case_number'' = Some cn" "cn \<noteq> []"
    and "f ''year'' = Some ys" "ys \<noteq> []" "py_int ys = Inr y" "sqlite_integer y"
    and "(if form_get f ''court_type'' ''district_court'' = ''high_court''
          then scrape_high_court env ct cn y else scrape_district_court env ct cn y)
         = Inr (cd, raw)"
  shows "search_case env st f =
        (Json 200 (jsonify_case_data cd),
         st\<lparr>queries := queries st @
               [\<lparr>q_id = next_rowid (map q_id (queries st)), q_case_type = ct,
                 q_case_number = cn, q_year = y,
                 q_court_type = form_get f ''court_type'' ''district_court'',
                 q_timestamp = current_timestamp env, q_raw_response = raw\<rparr>],
             case_details := case_details st @
               [\<lparr>cd_id = next_rowid (map cd_id (case_details st)),
                 cd_query_id = next_rowid (map q_id (queries st)),
                 cd_parties = parties cd, cd_filing_date = filing_date cd,
                 cd_next_hearing_date = next_hearing_date cd,
                 cd_case_status = case_status cd, cd_judgment_url = judgment_url cd\<rparr>]\<rparr>)
      \<and> next_rowid (map q_id (queries st)) \<notin> q_id ` set (queries st)"
  using assms next_rowid_fresh [of "map q_id (queries st)"]
  unfolding search_case_def Let_def
  by (auto simp: form_get_def insert_query_def insert_case_detail_def Let_def)

text \<open>
  C1 at the year \<open>9223372036854775808\<close> (\<open>2^63\<close>): the form passes the validation and
  the scrape succeeds, but the \<open>INSERT\<close> raises \<open>OverflowError\<close>; nothing is stored
  and the request ends in an internal server error.
\<close>

theorem search_case_year_overflow:
  "scrape_district_court sample_env ''CR'' ''12'' 9223372036854775808 =
     Inr (\<lparr>parties = ''Applicant: Jane Smith vs Opponent: ABC Corporation'',
           filing_date = ''2023-06-20'', next_hearing_date = ''2024-03-04'',
           case_status = ''Hearing'', judgment_url = None\<rparr>, ''<html></html>'')
   \<and> search_case sample_env empty_state
        [''case_type'' \<mapsto> ''CR'', ''case_number'' \<mapsto> ''12'', ''year'' \<mapsto> ''9223372036854775808'']
       = (InternalServerError
            (OverflowError ''Python int too large to convert to SQLite INTEGER''), empty_state)"
  by (simp add: search_case_def form_get_def sample_huge_year scrape_district_court_def
        sample_today_plus_5 sample_env_simps strftime_eval insert_query_def sqlite_integer_def)



section \<open>The store only grows\<close>

text \<open>
  C2. The store is append-only: after a case lookup, a cause-list download, a
  membership check, or any request dispatched to the application, each of the three
  tables starts with the rows it had before, unchanged and in the same order (the
  membership check leaves the whole store as it was).
\<close>

theorem store_append_only:
  "prefix (queries st) (queries (snd (search_case env st f)))
   \<and> prefix (case_details st) (case_details (snd (search_case env st f)))
   \<and> prefix (cause_lists st) (cause_lists (snd (search_case env st f)))
   \<and> prefix (queries st) (queries (snd (download_cause_list_handler env st f)))
   \<and> prefix (case_details st) (case_details (snd (download_cause_list_handler env st f)))
   \<and> prefix (cause_lists st) (cause_lists (snd (download_cause_list_handler env st f)))
   \<and> snd (check_case_in_cause_list env st f) = st
   \<and> prefix (queries st) (queries (snd (dispatch env st http_method path f)))
   \<and> prefix (case_details st) (case_details (snd (dispatch env st http_method path f)))
   \<and> prefix (cause_lists st) (cause_lists (snd (dispatch env st http_method path f)))"
proof -
  have d: "prefix (queries st) (queries (snd (dispatch env st http_method path f)))
   \<and> prefix (case_details st) (case_details (snd (dispatch env st http_method path f)))
   \<and> prefix (cause_lists st) (cause_lists (snd (dispatch env st http_method path f)))"
    using dispatch_cases [of env st http_method path f] view_function_appends [of st _ env f]
    by auto
  show ?thesis
    using d search_case_appends [of st env f] download_handler_appends [of env st f]
      check_case_state [of env st f]
    by simp
qed

theorem store_append_only_witness:
  "prefix (queries empty_state)
     (queries (snd (search_case sample_env empty_state
        [''case_type'' \<mapsto> ''CR'', ''case_number'' \<mapsto> ''12'', ''year'' \<mapsto> ''2023''])))
   \<and> snd (check_case_in_cause_list sample_env empty_state
        [''case_type'' \<mapsto> ''CR'', ''case_number'' \<mapsto> ''12'', ''year'' \<mapsto> ''2023'']) = empty_state"
  using store_append_only [of empty_state sample_env
      "[''case_type'' \<mapsto> ''CR'', ''case_number'' \<mapsto> ''12'', ''year'' \<mapsto> ''2023'']"
      "''POST''" "''/search_case''"]
  by simp

section \<open>The routes\<close>




end
